theory Spec2Isabelle
  imports Complex_Main "HOL-Library.Word"
begin

text \<open>
  A model of \<open>src/Canvas.js\<close> of Artistoo, the class that draws a grid-based model
  into the raw pixel buffer of a canvas, and the properties of its drawing functions.
  Each function of the class is a function on a record of the fields of the canvas; the
  model, the grids, the drawing context and the file system, which the class only uses,
  are records of their operations or parameters.
\<close>

section \<open>JavaScript numbers\<close>

text \<open>
  Canvas.js computes with JavaScript numbers. A number is modelled as a real, or one of the
  three non-finite values that division and \<open>Math.log\<close> produce. Arithmetic on finite
  values is exact and there is one zero: the rounding of IEEE doubles is not modelled, so
  a result of the code that hangs on the last bit of a double (a sum of steps that misses
  \<open>maxval\<close> by one unit in the last place, a product that falls on a rounding tie) is
  outside what the model decides.
\<close>

datatype jsnum = Num real | PInf | NInf | NaN

fun js_neg :: "jsnum \<Rightarrow> jsnum" where
  "js_neg (Num a) = Num (- a)"
| "js_neg PInf = NInf"
| "js_neg NInf = PInf"
| "js_neg NaN = NaN"

fun js_add :: "jsnum \<Rightarrow> jsnum \<Rightarrow> jsnum" where
  "js_add (Num a) (Num b) = Num (a + b)"
| "js_add NaN y = NaN"
| "js_add x NaN = NaN"
| "js_add PInf NInf = NaN"
| "js_add NInf PInf = NaN"
| "js_add PInf y = PInf"
| "js_add x PInf = PInf"
| "js_add NInf y = NInf"
| "js_add x NInf = NInf"

definition js_sub :: "jsnum \<Rightarrow> jsnum \<Rightarrow> jsnum" where
  "js_sub x y = js_add x (js_neg y)"

fun js_sgn_inf :: "real \<Rightarrow> jsnum" where
  "js_sgn_inf a = (if 0 < a then PInf else if a < 0 then NInf else NaN)"

fun js_mul :: "jsnum \<Rightarrow> jsnum \<Rightarrow> jsnum" where
  "js_mul (Num a) (Num b) = Num (a * b)"
| "js_mul NaN y = NaN"
| "js_mul x NaN = NaN"
| "js_mul PInf (Num b) = js_sgn_inf b"
| "js_mul NInf (Num b) = js_sgn_inf (- b)"
| "js_mul (Num a) PInf = js_sgn_inf a"
| "js_mul (Num a) NInf = js_sgn_inf (- a)"
| "js_mul PInf PInf = PInf"
| "js_mul NInf NInf = PInf"
| "js_mul PInf NInf = NInf"
| "js_mul NInf PInf = NInf"

text \<open>Division: a finite value over zero is an infinity of its sign, \<open>0/0\<close> is NaN.\<close>

fun js_div :: "jsnum \<Rightarrow> jsnum \<Rightarrow> jsnum" where
  "js_div (Num a) (Num b) = (if b = 0 then js_sgn_inf a else Num (a / b))"
| "js_div NaN y = NaN"
| "js_div x NaN = NaN"
| "js_div (Num a) PInf = Num 0"
| "js_div (Num a) NInf = Num 0"
| "js_div PInf (Num b) = (if b < 0 then NInf else PInf)"
| "js_div NInf (Num b) = (if b < 0 then PInf else NInf)"
| "js_div x y = NaN"

fun js_lt :: "jsnum \<Rightarrow> jsnum \<Rightarrow> bool" where
  "js_lt (Num a) (Num b) = (a < b)"
| "js_lt NaN y = False"
| "js_lt x NaN = False"
| "js_lt NInf NInf = False"
| "js_lt NInf y = True"
| "js_lt x PInf = (x \<noteq> PInf)"
| "js_lt x y = False"

definition js_gt :: "jsnum \<Rightarrow> jsnum \<Rightarrow> bool" where
  "js_gt x y = js_lt y x"

fun js_ge :: "jsnum \<Rightarrow> jsnum \<Rightarrow> bool" where
  "js_ge NaN y = False"
| "js_ge x NaN = False"
| "js_ge x y = (\<not> js_lt x y)"

fun js_abs :: "jsnum \<Rightarrow> jsnum" where
  "js_abs (Num a) = Num \<bar>a\<bar>"
| "js_abs NInf = PInf"
| "js_abs x = x"

text \<open>\<open>Math.log\<close>: minus infinity at zero, NaN below it.\<close>

fun js_log :: "jsnum \<Rightarrow> jsnum" where
  "js_log (Num a) = (if 0 < a then Num (ln a) else if a = 0 then NInf else NaN)"
| "js_log PInf = PInf"
| "js_log x = NaN"

subsection \<open>Bytes of the pixel buffer\<close>

text \<open>
  The pixel buffer is a \<open>Uint8ClampedArray\<close>: a stored number is clamped to \<open>0..255\<close>
  and rounded to the nearest integer, a tie to the even one; NaN is stored as 0.
\<close>

type_synonym byte = "8 word"

definition round_half_even :: "real \<Rightarrow> int" where
  "round_half_even r =
     (let f = \<lfloor>r\<rfloor> in
      if r - of_int f < 1 / 2 then f
      else if 1 / 2 < r - of_int f then f + 1
      else if even f then f else f + 1)"

fun to_uint8c :: "jsnum \<Rightarrow> byte" where
  "to_uint8c (Num r) =
     (if r \<le> 0 then 0 else if 255 \<le> r then 255 else word_of_int (round_half_even r))"
| "to_uint8c PInf = 255"
| "to_uint8c x = 0"

text \<open>
  A store into a typed array at an index outside it is ignored.
\<close>

definition px_set :: "byte list \<Rightarrow> int \<Rightarrow> byte \<Rightarrow> byte list" where
  "px_set b k v = (if 0 \<le> k \<and> k < int (length b) then b[nat k := v] else b)"

subsection \<open>Counting loops\<close>

text \<open>
  \<open>for (let i = a; i < n; i += d)\<close> visits the values \<open>for_range a n d\<close>. Every such
  loop of Canvas.js that is reached with \<open>i < n\<close> has a positive increment.
\<close>

function for_range :: "int \<Rightarrow> int \<Rightarrow> int \<Rightarrow> int list" where
  "for_range i n d = (if i < n \<and> 0 < d then i # for_range (i + d) n d else [])"
  by pat_completeness auto
termination
  by (relation "measure (\<lambda>(i, n, d). nat (n - i))") auto

declare for_range.simps [simp del]

text \<open>JavaScript's \<open>%\<close> on integers: the remainder has the sign of the dividend.\<close>

definition js_rem :: "int \<Rightarrow> int \<Rightarrow> int" where
  "js_rem a b = sgn a * (\<bar>a\<bar> mod \<bar>b\<bar>)"

section \<open>The collaborators of the canvas\<close>

text \<open>
  A grid (\<open>Grid2D\<close>, \<open>CoarseGrid\<close>) is used through its extents, its value lookup, the
  von Neumann neighbourhood of an index and the two conversions between coordinates and
  indices. These classes are not part of Canvas.js; a grid is a record of these operations.
\<close>

type_synonym coord = "int \<times> int"

record grid =
  extents :: "int \<times> int"
  pixt :: "coord \<Rightarrow> jsnum"
  neighNeumanni :: "int \<Rightarrow> int list"
  p2i :: "coord \<Rightarrow> int"
  i2p :: "int \<Rightarrow> coord"

text \<open>
  A soft constraint of the model; \<open>instanceof\<close> looks at its class. The activity
  constraints carry \<open>pxact\<close> and \<open>conf["MAX_ACT"]\<close>.
\<close>

datatype constraint_class = ActivityConstraint | ActivityMultiBackground | OtherConstraint

record constraint =
  c_class :: constraint_class
  pxact :: "int \<Rightarrow> jsnum"
  MAX_ACT :: "int \<Rightarrow> jsnum"

text \<open>
  The model \<open>C\<close> (a \<open>GridBasedModel\<close>): the label of a pixel (\<open>None\<close> where the lookup
  yields \<open>undefined\<close>), the kind of a cell, the border pixels and the cell pixels as
  sequences of (coordinate, cell id), the soft constraints in their order, and the
  \<open>PixelsByCell\<close> statistic with its keys in the order \<open>Object.keys\<close> yields them.
\<close>

record cpm =
  cpm_grid :: grid
  cpm_extents :: "int \<times> int"
  cpm_pixt :: "coord \<Rightarrow> int option"
  cellKind :: "int \<Rightarrow> int"
  cellBorderPixels :: "(coord \<times> int) list"
  cellPixels :: "(coord \<times> int) list"
  soft_constraints :: "constraint list"
  PixelsByCell :: "(int \<times> coord list) list"

section \<open>The canvas\<close>

text \<open>
  The fields of a \<open>Canvas\<close> object. \<open>img\<close> is the bitmap held by the drawing context
  \<open>ctx\<close> and \<open>px\<close> the data of the image fetched by \<open>getImageData\<close>; \<open>fillStyle\<close>
  and \<open>globalAlpha\<close> are the last values assigned to these properties of \<open>ctx\<close>.
  Before the first \<open>getImageData\<close> there is no image data: \<open>px\<close> is empty
  (every drawing function fetches the image before it writes). The zoom and the two wrap
  entries are integers.
\<close>

record canvas =
  C :: "cpm option"
  grid :: grid
  cv_extents :: "int \<times> int"
  zoom :: int
  wrap :: "int \<times> int"
  width :: int
  height :: int
  img :: "byte list"
  px :: "byte list"
  col_r :: jsnum
  col_g :: jsnum
  col_b :: jsnum
  fillStyle :: string
  globalAlpha :: real

subsection \<open>Construction\<close>

text \<open>
  \<open>new Canvas(C, options)\<close>. The argument is a model or a grid; \<open>options.zoom\<close> and
  \<open>options.wrap\<close> fall back to 1 and to no wrapping when they are missing or falsy. The
  bitmap of a new canvas element is transparent black. No colour has been set yet: the
  three channel fields are \<open>undefined\<close>, which a store into the buffer treats as NaN.
\<close>

datatype drawable = Model cpm | Grid grid

record options =
  opt_zoom :: "int option"
  opt_wrap :: "(int \<times> int) option"

definition option_zoom :: "options option \<Rightarrow> int" where
  "option_zoom opts =
     (case opts of None \<Rightarrow> 1
      | Some opt \<Rightarrow> (case opt_zoom opt of None \<Rightarrow> 1 | Some z \<Rightarrow> if z = 0 then 1 else z))"

definition option_wrap :: "options option \<Rightarrow> int \<times> int" where
  "option_wrap opts =
     (case opts of None \<Rightarrow> (0, 0)
      | Some opt \<Rightarrow> (case opt_wrap opt of None \<Rightarrow> (0, 0) | Some w \<Rightarrow> w))"

definition new_Canvas :: "drawable \<Rightarrow> options option \<Rightarrow> canvas" where
  "new_Canvas d opts =
     (let g = (case d of Model m \<Rightarrow> cpm_grid m | Grid g' \<Rightarrow> g');
          ext = (case d of Model m \<Rightarrow> cpm_extents m | Grid g' \<Rightarrow> extents g');
          z = option_zoom opts;
          wr = option_wrap opts;
          w = (if fst wr = 0 \<or> fst ext < fst wr then fst ext else fst wr);
          h = (if snd wr = 0 \<or> snd ext < snd wr then snd ext else snd wr)
      in \<lparr> C = (case d of Model m \<Rightarrow> Some m | Grid g' \<Rightarrow> None),
           grid = g, cv_extents = ext, zoom = z, wrap = wr, width = w, height = h,
           img = replicate (nat (w * z * (h * z) * 4)) 0,
           px = [],
           col_r = NaN, col_g = NaN, col_b = NaN,
           fillStyle = ''#000000'', globalAlpha = 1 \<rparr>)"

subsection \<open>Raw pixel writes\<close>

text \<open>The four stores of one buffer pixel: the three colour channels and the alpha value.\<close>

definition store_rgba :: "byte list \<Rightarrow> int \<Rightarrow> byte \<Rightarrow> byte \<Rightarrow> byte \<Rightarrow> byte \<Rightarrow> byte list" where
  "store_rgba buf k r g b a =
     px_set (px_set (px_set (px_set buf k r) (k + 1) g) (k + 2) b) (k + 3) a"

definition put_rgba :: "canvas \<Rightarrow> int \<Rightarrow> jsnum \<Rightarrow> canvas" where
  "put_rgba cv k a =
     cv\<lparr>px := store_rgba (px cv) k (to_uint8c (col_r cv)) (to_uint8c (col_g cv))
                          (to_uint8c (col_b cv)) (to_uint8c a)\<rparr>"

text \<open>\<open>pxfi(p, alpha)\<close>: the zoom by zoom block of grid pixel \<open>p\<close>.\<close>

definition pxfi :: "canvas \<Rightarrow> coord \<Rightarrow> jsnum \<Rightarrow> canvas" where
  "pxfi cv p alpha =
     (let dy = zoom cv * width cv;
          off = (zoom cv * snd p * dy + zoom cv * fst p) * 4
      in fold (\<lambda>i s.
           fold (\<lambda>j s'. put_rgba s' (i + j + off) (js_mul alpha (Num 255)))
                (for_range 0 (zoom cv * dy * 4) (dy * 4)) s)
           (for_range 0 (zoom cv * 4) 4) cv)"

text \<open>
  The buffer offsets that the two loops of \<open>pxfi\<close> visit, in their order, as a list
  of their own; it is used to state what \<open>pxfi\<close> writes.
\<close>

definition pxfi_offsets :: "int \<Rightarrow> int \<Rightarrow> coord \<Rightarrow> int list" where
  "pxfi_offsets z w p =
     concat (map (\<lambda>i. map (\<lambda>j. i + j + (z * snd p * (z * w) + z * fst p) * 4)
                           (for_range 0 (z * (z * w) * 4) (z * w * 4)))
                 (for_range 0 (z * 4) 4))"


definition getImageData :: "canvas \<Rightarrow> canvas" where
  "getImageData cv = cv\<lparr>px := img cv\<rparr>"

definition putImageData :: "canvas \<Rightarrow> canvas" where
  "putImageData cv = cv\<lparr>img := px cv\<rparr>"





subsection \<open>Colours\<close>

text \<open>
  \<open>parseInt(s, 16)\<close>: leading white space, a sign and a \<open>0x\<close> prefix are skipped, then
  the longest run of hexadecimal digits is read; without a digit the result is NaN. A
  string is a sequence of character codes below 256; the white space among them is the
  codes 9 to 13, 32 and 160 (the no-break space).
\<close>

definition hex_digit :: "char \<Rightarrow> nat option" where
  "hex_digit c =
     (let n = (of_char c :: nat) in
      if 48 \<le> n \<and> n \<le> 57 then Some (n - 48)
      else if 97 \<le> n \<and> n \<le> 102 then Some (n - 87)
      else if 65 \<le> n \<and> n \<le> 70 then Some (n - 55)
      else None)"

fun hex_prefix :: "string \<Rightarrow> nat option \<Rightarrow> nat option" where
  "hex_prefix [] acc = acc"
| "hex_prefix (c # cs) acc =
     (case hex_digit c of
        None \<Rightarrow> acc
      | Some d \<Rightarrow> hex_prefix cs (Some (16 * (case acc of None \<Rightarrow> 0 | Some a \<Rightarrow> a) + d)))"

definition js_space :: "char \<Rightarrow> bool" where
  "js_space c = ((of_char c :: nat) \<in> {9, 10, 11, 12, 13, 32, 160})"

definition parseInt16 :: "string \<Rightarrow> jsnum" where
  "parseInt16 s =
     (let t = dropWhile js_space s;
          neg = (take 1 t = ''-'');
          u = (if take 1 t = ''-'' \<or> take 1 t = ''+'' then drop 1 t else t);
          w = (if take 2 u = ''0x'' \<or> take 2 u = ''0X'' then drop 2 u else u)
      in case hex_prefix w None of
           None \<Rightarrow> NaN
         | Some n \<Rightarrow> Num (if neg then - real n else real n))"

definition substr :: "string \<Rightarrow> nat \<Rightarrow> nat \<Rightarrow> string" where
  "substr s a n = take n (drop a s)"

text \<open>\<open>col(hex)\<close> sets the fill style of the context and the three channel fields.\<close>

definition col :: "canvas \<Rightarrow> string \<Rightarrow> canvas" where
  "col cv hex =
     cv\<lparr>fillStyle := ''#'' @ hex,
        col_r := parseInt16 (substr hex 0 2),
        col_g := parseInt16 (substr hex 2 2),
        col_b := parseInt16 (substr hex 4 2)\<rparr>"

text \<open>\<open>col || "000000"\<close>: a missing or empty colour string is black.\<close>

definition col_or_black :: "string option \<Rightarrow> string" where
  "col_or_black c = (case c of None \<Rightarrow> ''000000'' | Some h \<Rightarrow> if h = [] then ''000000'' else h)"

text \<open>
  \<open>clear(col)\<close> paints through the drawing context. What \<open>fillRect\<close> does to the bitmap
  is the context's business: it is a parameter, a function of the fill style, the
  rectangle and the bitmap.
\<close>

type_synonym fill_rect = "string \<Rightarrow> int \<times> int \<times> int \<times> int \<Rightarrow> byte list \<Rightarrow> byte list"

definition clear :: "fill_rect \<Rightarrow> canvas \<Rightarrow> string option \<Rightarrow> canvas" where
  "clear fillRect cv c =
     (let style = ''#'' @ col_or_black c
      in cv\<lparr>fillStyle := style,
            img := fillRect style (0, 0, width cv * zoom cv, height cv * zoom cv) (img cv)\<rparr>)"

text \<open>\<open>p2pdraw(p)\<close> reduces each coordinate whose wrap entry is not zero.\<close>

definition p2pdraw :: "canvas \<Rightarrow> coord \<Rightarrow> coord" where
  "p2pdraw cv p =
     (if fst (wrap cv) \<noteq> 0 then js_rem (fst p) (fst (wrap cv)) else fst p,
      if snd (wrap cv) \<noteq> 0 then js_rem (snd p) (snd (wrap cv)) else snd p)"

section \<open>Drawing functions\<close>

text \<open>
  An exception leaves a drawing function as a value: a \<open>TypeError\<close> of the runtime
  (the canvas was built on a bare grid and has no model \<open>C\<close>), or the string that the
  code throws.
\<close>

datatype js_error = TypeError | Thrown string

subsection \<open>drawField\<close>

text \<open>The pixels visited by the two nested loops over \<open>cc.extents\<close>, in their order.\<close>

definition field_cells :: "grid \<Rightarrow> coord list" where
  "field_cells cc =
     concat (map (\<lambda>i. map (\<lambda>j. (i, j)) (for_range 0 (snd (extents cc)) 1))
                 (for_range 0 (fst (extents cc)) 1))"

text \<open>\<open>Math.log(.1 + cc.pixt([i,j]))\<close>\<close>

definition log_pixt :: "grid \<Rightarrow> coord \<Rightarrow> jsnum" where
  "log_pixt cc p = js_log (js_add (Num (1 / 10)) (pixt cc p))"

definition field_maxval :: "grid \<Rightarrow> jsnum" where
  "field_maxval cc =
     fold (\<lambda>p maxval. if js_lt maxval (log_pixt cc p) then log_pixt cc p else maxval)
          (field_cells cc) (Num 0)"

definition field_alpha :: "grid \<Rightarrow> jsnum \<Rightarrow> coord \<Rightarrow> jsnum" where
  "field_alpha cc maxval p = js_div (log_pixt cc p) maxval"

definition drawField :: "canvas \<Rightarrow> grid option \<Rightarrow> string option \<Rightarrow> canvas" where
  "drawField cv cc c =
     (let cc' = (case cc of None \<Rightarrow> grid cv | Some g \<Rightarrow> g);
          cv1 = col cv (case c of None \<Rightarrow> ''0000FF'' | Some h \<Rightarrow> h);
          maxval = field_maxval cc';
          cv2 = getImageData cv1;
          cv3 = fold (\<lambda>p s. pxfi s p (field_alpha cc' maxval p)) (field_cells cc') cv2
      in (putImageData cv3)\<lparr>globalAlpha := 1\<rparr>)"

subsection \<open>drawFieldContour\<close>

definition field_maxmin :: "grid \<Rightarrow> jsnum \<times> jsnum" where
  "field_maxmin cc =
     fold (\<lambda>p (maxval, minval).
             (if js_lt maxval (log_pixt cc p) then log_pixt cc p else maxval,
              if js_gt minval (log_pixt cc p) then log_pixt cc p else minval))
          (field_cells cc) (Num 0, js_log (Num (1 / 10)))"

text \<open>
  The loop over the neighbours of a pixel, with its two flags. The result says whether
  the loop reaches the pixel write (after which it breaks).
\<close>

fun neigh_loop :: "canvas \<Rightarrow> grid \<Rightarrow> jsnum \<Rightarrow> int list \<Rightarrow> bool \<Rightarrow> bool \<Rightarrow> bool" where
  "neigh_loop cv cc v [] is_below is_above = False"
| "neigh_loop cv cc v (n # ns) is_below is_above =
     (let nval = js_log (js_add (Num (1 / 10)) (pixt cc (i2p (grid cv) n)));
          is_below' = (if js_lt nval v then True else is_below);
          is_above' = (if js_ge nval v then True else is_above)
      in if is_above' \<and> is_below' then True
         else neigh_loop cv cc v ns is_below' is_above')"

definition contour_cell :: "grid \<Rightarrow> jsnum \<Rightarrow> jsnum \<Rightarrow> jsnum \<Rightarrow> coord \<Rightarrow> canvas \<Rightarrow> canvas" where
  "contour_cell cc maxval minval v p cv =
     (let pixelval = log_pixt cc p in
      if js_lt (js_abs (js_sub v pixelval)) (js_mul (Num (5 / 100)) maxval) then
        (if neigh_loop cv cc v (neighNeumanni (grid cv) (p2i (grid cv) p)) False False
         then pxfi cv p (js_add (js_mul (Num (7 / 10))
                                   (js_div (js_sub v minval) (js_sub maxval minval)))
                                (Num (3 / 10)))
         else cv)
      else cv)"

text \<open>
  \<open>for (let v = minval; v < maxval; v += step)\<close>. With a step that is not positive the
  loop does not end: the result \<open>None\<close> stands for a call that never returns.
\<close>

partial_function (option) level_loop ::
    "(jsnum \<Rightarrow> canvas \<Rightarrow> canvas) \<Rightarrow> jsnum \<Rightarrow> jsnum \<Rightarrow> jsnum \<Rightarrow> canvas \<Rightarrow> canvas option" where
  "level_loop body v maxval step cv =
     (if js_lt v maxval then level_loop body (js_add v step) maxval step (body v cv)
      else Some cv)"

definition drawFieldContour ::
    "canvas \<Rightarrow> grid option \<Rightarrow> jsnum option \<Rightarrow> string option \<Rightarrow> canvas option" where
  "drawFieldContour cv cc nsteps c =
     (let cc' = (case cc of None \<Rightarrow> grid cv | Some g \<Rightarrow> g);
          n = (case nsteps of None \<Rightarrow> Num 10 | Some k \<Rightarrow> k);
          cv1 = col cv (case c of None \<Rightarrow> ''FFFF00'' | Some h \<Rightarrow> h);
          maxval = fst (field_maxmin cc');
          minval = snd (field_maxmin cc');
          cv2 = getImageData cv1;
          step = js_div (js_sub maxval minval) n
      in map_option putImageData
           (level_loop (\<lambda>v s. fold (contour_cell cc' maxval minval v) (field_cells cc') s)
                       minval maxval step cv2))"

subsection \<open>drawCellBorders\<close>









subsection \<open>drawActivityValues\<close>







subsection \<open>drawCells and drawPixelSet\<close>

datatype colour = ColString string | ColFunction "int \<Rightarrow> string"

definition colour_or_black :: "colour option \<Rightarrow> colour" where
  "colour_or_black c =
     (case c of
        None \<Rightarrow> ColString ''000000''
      | Some (ColString h) \<Rightarrow> if h = [] then ColString ''000000'' else ColString h
      | Some (ColFunction f) \<Rightarrow> ColFunction f)"

definition col_if_string :: "canvas \<Rightarrow> colour \<Rightarrow> canvas" where
  "col_if_string cv c = (case c of ColString h \<Rightarrow> col cv h | ColFunction f \<Rightarrow> cv)"

definition cell_fill :: "cpm \<Rightarrow> int \<Rightarrow> colour \<Rightarrow> int \<times> coord list \<Rightarrow> canvas \<Rightarrow> canvas" where
  "cell_fill m kind c entry cv =
     (let cid = fst entry in
      if kind < 0 \<or> cellKind m cid = kind then
        (let cv1 = (case c of ColFunction f \<Rightarrow> col cv (f cid) | ColString h \<Rightarrow> cv)
         in fold (\<lambda>cp s. pxfi s cp (Num 1)) (snd entry) cv1)
      else cv)"

definition drawCells :: "canvas \<Rightarrow> int \<Rightarrow> colour option \<Rightarrow> js_error + canvas" where
  "drawCells cv kind c =
     (let c' = colour_or_black c;
          cv1 = col_if_string cv c'
      in case C cv1 of
           None \<Rightarrow> Inl TypeError
         | Some m \<Rightarrow>
             Inr (putImageData (fold (cell_fill m kind c') (PixelsByCell m) (getImageData cv1))))"

definition drawPixelSet :: "canvas \<Rightarrow> coord list \<Rightarrow> colour option \<Rightarrow> canvas" where
  "drawPixelSet cv pixelarray c =
     (let cv1 = col_if_string cv (colour_or_black c)
      in putImageData (fold (\<lambda>p s. pxfi s p (Num 1)) pixelarray (getImageData cv1)))"

subsection \<open>writePNG\<close>

text \<open>
  The file system and the encoder are outside Canvas.js. What the guarded statement
  \<open>this.fs.writeFileSync(fname, this.el.toBuffer())\<close> does is a parameter: it
  completes, or raises an error whose \<open>code\<close> property is a string or is missing.
\<close>

datatype write_outcome = Written | Raised "string option"

definition writePNG :: "(string \<Rightarrow> write_outcome) \<Rightarrow> string \<Rightarrow> js_error + unit" where
  "writePNG writeFileSync fname =
     (case writeFileSync fname of
        Written \<Rightarrow> Inr ()
      | Raised code \<Rightarrow>
          if code = Some ''ENOENT''
          then Inl (Thrown (''Canvas.writePNG: cannot write to file '' @ fname @
                            '', are you sure the directory exists?''))
          else Inr ())"

section \<open>Example inputs\<close>

text \<open>
  A grid of one row without torus: the index of a pixel is its x coordinate, and the
  neighbours of an index are the indices to its left and right that lie on the grid.
\<close>

definition line_grid :: "int \<Rightarrow> (int \<Rightarrow> jsnum) \<Rightarrow> grid" where
  "line_grid w f =
     \<lparr> extents = (w, 1),
       pixt = (\<lambda>p. f (fst p)),
       neighNeumanni = (\<lambda>i. (if 0 < i then [i - 1] else []) @ (if i < w - 1 then [i + 1] else [])),
       p2i = fst,
       i2p = (\<lambda>i. (i, 0)) \<rparr>"

text \<open>
  A model on a grid of four pixels in a row: background, cell 1, cell 2, background. Both
  cells are of kind 1. Of its three constraints the second and the third are activity
  constraints.
\<close>

definition two_cells :: cpm where
  "two_cells =
     \<lparr> cpm_grid = line_grid 4 (\<lambda>x. Num 0),
       cpm_extents = (4, 1),
       cpm_pixt = (\<lambda>p. if snd p = 0 \<and> 0 \<le> fst p \<and> fst p < 4
                         then Some (if fst p = 1 then 1 else if fst p = 2 then 2 else 0)
                         else None),
       cellKind = (\<lambda>i. if i = 0 then 0 else 1),
       cellBorderPixels = [((1, 0), 1), ((2, 0), 2)],
       cellPixels = [((1, 0), 1), ((2, 0), 2)],
       soft_constraints =
         [\<lparr> c_class = OtherConstraint, pxact = (\<lambda>i. NaN), MAX_ACT = (\<lambda>k. NaN) \<rparr>,
          \<lparr> c_class = ActivityConstraint, pxact = (\<lambda>i. Num 40), MAX_ACT = (\<lambda>k. Num 80) \<rparr>,
          \<lparr> c_class = ActivityMultiBackground, pxact = (\<lambda>i. Num 1), MAX_ACT = (\<lambda>k. Num 2) \<rparr>],
       PixelsByCell = [(1, [(1, 0)]), (2, [(2, 0)])] \<rparr>"


section \<open>Properties of the pixel buffer\<close>

lemma length_px_set [simp]: "length (px_set b k v) = length b"
  by (simp add: px_set_def)

lemma nth_px_set: "n < length b \<Longrightarrow> px_set b k v ! n = (if int n = k then v else b ! n)"
  by (auto simp: px_set_def nth_list_update)

lemma length_store_rgba [simp]: "length (store_rgba buf k r g b a) = length buf"
  by (simp add: store_rgba_def)

lemma nth_store_rgba:
  "n < length buf \<Longrightarrow> store_rgba buf k r g b a ! n =
     (if int n = k then r else if int n = k + 1 then g else if int n = k + 2 then b
      else if int n = k + 3 then a else buf ! n)"
  by (simp add: store_rgba_def nth_px_set)

lemma length_fold_store [simp]:
  "length (fold (\<lambda>k buf. store_rgba buf k r g b a) ks buf) = length buf"
  by (induction ks arbitrary: buf) simp_all

lemma nth_fold_store:
  assumes "\<forall>k\<in>set ks. 4 dvd k" and "n < length buf"
  shows "fold (\<lambda>k buf. store_rgba buf k r g b a) ks buf ! n =
           (if \<exists>k\<in>set ks. k \<le> int n \<and> int n \<le> k + 3
            then [r, g, b, a] ! (n mod 4) else buf ! n)"
  using assms
proof (induction ks arbitrary: buf rule: rev_induct)
  case Nil
  then show ?case by simp
next
  case (snoc k ks)
  have k4: "4 dvd k" using snoc.prems by simp
  have len: "n < length (fold (\<lambda>k buf. store_rgba buf k r g b a) ks buf)"
    using snoc.prems by simp
  have ih: "fold (\<lambda>k buf. store_rgba buf k r g b a) ks buf ! n =
           (if \<exists>k\<in>set ks. k \<le> int n \<and> int n \<le> k + 3
            then [r, g, b, a] ! (n mod 4) else buf ! n)"
    using snoc by simp
  show ?case
  proof (cases "k \<le> int n \<and> int n \<le> k + 3")
    case True
    then obtain c where c: "int n = k + c" "0 \<le> c" "c \<le> 3"
      by (metis add.commute diff_add_cancel diff_ge_0_iff_ge diff_le_eq)
    then have "int n mod 4 = c" using k4 by (auto simp: mod_add_left_eq dvd_eq_mod_eq_0)
    then have "int (n mod 4) = c" by (simp add: zmod_int)
    then have nm: "n mod 4 = nat c" by linarith
    have "c = 0 \<or> c = 1 \<or> c = 2 \<or> c = 3" using c by arith
    then show ?thesis using True c nm len
      by (auto simp: nth_store_rgba)
  next
    case False
    then show ?thesis using len ih
      by (auto simp: nth_store_rgba)
  qed
qed

lemma for_range_dvd:
  "m dvd i \<Longrightarrow> m dvd d \<Longrightarrow> \<forall>x\<in>set (for_range i n d). m dvd x"
proof (induction i n d rule: for_range.induct)
  case (1 i n d)
  show ?case
  proof (cases "i < n \<and> 0 < d")
    case True
    then have "for_range i n d = i # for_range (i + d) n d"
      by (subst for_range.simps) simp
    moreover have "\<forall>x\<in>set (for_range (i + d) n d). m dvd x"
      using 1 True by simp
    ultimately show ?thesis using 1 by simp
  next
    case False
    then have "for_range i n d = []" by (subst for_range.simps) simp
    then show ?thesis by simp
  qed
qed

lemma fold_put_rgba:
  "fold (\<lambda>k s. put_rgba s k a) ks cv =
     cv\<lparr>px := fold (\<lambda>k buf. store_rgba buf k (to_uint8c (col_r cv)) (to_uint8c (col_g cv))
                                 (to_uint8c (col_b cv)) (to_uint8c a)) ks (px cv)\<rparr>"
  by (induction ks arbitrary: cv) (simp_all add: put_rgba_def)

lemma fold_nested:
  "fold (\<lambda>i s. fold (\<lambda>j s'. f (i + j + off) s') js s) is s0 =
     fold f (concat (map (\<lambda>i. map (\<lambda>j. i + j + off) js) is)) s0"
  by (induction "is" arbitrary: s0) (simp_all add: fold_map comp_def)

lemma pxfi_px:
  "pxfi cv p alpha =
     cv\<lparr>px := fold (\<lambda>k buf. store_rgba buf k (to_uint8c (col_r cv)) (to_uint8c (col_g cv))
                         (to_uint8c (col_b cv)) (to_uint8c (js_mul alpha (Num 255))))
                  (pxfi_offsets (zoom cv) (width cv) p) (px cv)\<rparr>"
  unfolding pxfi_def pxfi_offsets_def Let_def
  by (simp only: fold_nested [where f = "\<lambda>k s. put_rgba s k (js_mul alpha (Num 255))"] fold_put_rgba)

lemma pxfi_offsets_dvd: "\<forall>k\<in>set (pxfi_offsets z w p). 4 dvd k"
proof -
  have a: "\<forall>x\<in>set (for_range 0 (z * 4) 4). (4::int) dvd x"
    by (rule for_range_dvd) simp_all
  have b: "\<forall>x\<in>set (for_range 0 (z * (z * w) * 4) (z * w * 4)). (4::int) dvd x"
    by (rule for_range_dvd) simp_all
  show ?thesis using a b by (auto simp: pxfi_offsets_def)
qed

lemma fold_store_absorb:
  assumes "\<forall>k\<in>set ks. 4 dvd k"
  shows "fold (\<lambda>k buf. store_rgba buf k r g b a) ks
           (fold (\<lambda>k buf. store_rgba buf k r' g' b' a') ks buf) =
         fold (\<lambda>k buf. store_rgba buf k r g b a) ks buf"
proof (rule nth_equalityI)
  show "length (fold (\<lambda>k buf. store_rgba buf k r g b a) ks
           (fold (\<lambda>k buf. store_rgba buf k r' g' b' a') ks buf)) =
        length (fold (\<lambda>k buf. store_rgba buf k r g b a) ks buf)"
    by simp
next
  fix n
  assume "n < length (fold (\<lambda>k buf. store_rgba buf k r g b a) ks
           (fold (\<lambda>k buf. store_rgba buf k r' g' b' a') ks buf))"
  then have n: "n < length buf" by simp
  show "fold (\<lambda>k buf. store_rgba buf k r g b a) ks
           (fold (\<lambda>k buf. store_rgba buf k r' g' b' a') ks buf) ! n =
        fold (\<lambda>k buf. store_rgba buf k r g b a) ks buf ! n"
  proof (cases "\<exists>k\<in>set ks. k \<le> int n \<and> int n \<le> k + 3")
    case True
    then show ?thesis using n by (simp add: nth_fold_store [OF assms])
  next
    case False
    then show ?thesis using n by (auto simp add: nth_fold_store [OF assms])
  qed
qed

lemma for_range_step: "i < n \<Longrightarrow> 0 < d \<Longrightarrow> for_range i n d = i # for_range (i + d) n d"
  by (subst for_range.simps) simp

lemma for_range_stop: "\<not> i < n \<Longrightarrow> for_range i n d = []"
  by (subst for_range.simps) simp

lemma pxfi_writes:
  assumes "k \<in> set (pxfi_offsets (zoom cv) (width cv) p)"
    and "0 \<le> k" and "k + 3 < int (length (px cv))"
  shows "px (pxfi cv p alpha) ! nat k = to_uint8c (col_r cv)"
    and "px (pxfi cv p alpha) ! nat (k + 1) = to_uint8c (col_g cv)"
    and "px (pxfi cv p alpha) ! nat (k + 2) = to_uint8c (col_b cv)"
    and "px (pxfi cv p alpha) ! nat (k + 3) = to_uint8c (js_mul alpha (Num 255))"
proof -
  let ?ks = "pxfi_offsets (zoom cv) (width cv) p"
  let ?bytes = "[to_uint8c (col_r cv), to_uint8c (col_g cv), to_uint8c (col_b cv),
                 to_uint8c (js_mul alpha (Num 255))]"
  have d: "4 dvd k" using assms(1) pxfi_offsets_dvd by blast
  have mc: "nat (k + c) mod 4 = nat c" if "0 \<le> c" "c \<le> 3" for c
  proof -
    have "(k + c) mod 4 = c" using d that by presburger
    then have "int (nat (k + c) mod 4) = c" using assms(2) that by (simp add: zmod_int)
    then show ?thesis by linarith
  qed
  have nth: "px (pxfi cv p alpha) ! nat (k + c) = ?bytes ! nat c" if c: "0 \<le> c" "c \<le> 3" for c
  proof -
    have h: "\<exists>k'\<in>set ?ks. k' \<le> int (nat (k + c)) \<and> int (nat (k + c)) \<le> k' + 3"
      using assms(1,2) c by (intro bexI [of _ k]) auto
    have l: "nat (k + c) < length (px cv)"
      using assms(2,3) c by linarith
    have "px (pxfi cv p alpha) ! nat (k + c) =
            fold (\<lambda>k buf. store_rgba buf k (to_uint8c (col_r cv)) (to_uint8c (col_g cv))
                         (to_uint8c (col_b cv)) (to_uint8c (js_mul alpha (Num 255)))) ?ks (px cv)
              ! nat (k + c)"
      by (simp add: pxfi_px)
    also have "\<dots> = ?bytes ! (nat (k + c) mod 4)"
      using h by (simp only: nth_fold_store [OF pxfi_offsets_dvd l] if_True)
    finally show ?thesis by (simp only: mc [OF c])
  qed
  show "px (pxfi cv p alpha) ! nat k = to_uint8c (col_r cv)"
    using nth [of 0] by simp
  show "px (pxfi cv p alpha) ! nat (k + 1) = to_uint8c (col_g cv)"
    using nth [of 1] by simp
  show "px (pxfi cv p alpha) ! nat (k + 2) = to_uint8c (col_b cv)"
    using nth [of 2] by simp
  show "px (pxfi cv p alpha) ! nat (k + 3) = to_uint8c (js_mul alpha (Num 255))"
    using nth [of 3] by simp
qed

section \<open>Claims\<close>

subsection \<open>Raw pixel writes overwrite\<close>

text \<open>
  Claim C6. A raw pixel write is an overwrite, not a blend. Two writes \<open>pxfi\<close> to the
  same grid pixel in sequence, whatever alpha values they carry and whatever colour is set
  between them, leave the canvas as the second write alone does. The write stores the
  current channel values and \<open>alpha * 255\<close> (clamped and rounded by the byte array)
  at every offset of the block that lies in the buffer.
\<close>

theorem pxfi_overwrites:
  "pxfi ((pxfi cv p a1)\<lparr>col_r := r, col_g := g, col_b := b\<rparr>) p a2 =
     pxfi (cv\<lparr>col_r := r, col_g := g, col_b := b\<rparr>) p a2
   \<and> (k \<in> set (pxfi_offsets (zoom cv) (width cv) p) \<and> 0 \<le> k \<and> k + 3 < int (length (px cv))
      \<longrightarrow> px (pxfi cv p a2) ! nat k = to_uint8c (col_r cv)
        \<and> px (pxfi cv p a2) ! nat (k + 1) = to_uint8c (col_g cv)
        \<and> px (pxfi cv p a2) ! nat (k + 2) = to_uint8c (col_b cv)
        \<and> px (pxfi cv p a2) ! nat (k + 3) = to_uint8c (js_mul a2 (Num 255)))"
proof (intro conjI impI)
  show "pxfi ((pxfi cv p a1)\<lparr>col_r := r, col_g := g, col_b := b\<rparr>) p a2 =
     pxfi (cv\<lparr>col_r := r, col_g := g, col_b := b\<rparr>) p a2"
    by (simp add: pxfi_px fold_store_absorb [OF pxfi_offsets_dvd])
qed (blast intro: pxfi_writes)+

text \<open>
  On a canvas of two pixels with colour \<open>FF8000\<close>: after a write with alpha 1/4, a
  colour change and a write with alpha 1/2, the canvas is as after the second write alone;
  a write with alpha 1/2 stores the bytes 255, 128, 0 and 128 (127.5 rounded to even).
\<close>

theorem pxfi_overwrites_witness:
  "pxfi ((pxfi (getImageData (col (new_Canvas (Grid (line_grid 2 (\<lambda>x. Num 0))) None) ''FF8000'')) (1, 0) (Num (1 / 4)))
           \<lparr>col_r := Num 0, col_g := Num 0, col_b := Num 255\<rparr>) (1, 0) (Num (1 / 2)) =
   pxfi ((getImageData (col (new_Canvas (Grid (line_grid 2 (\<lambda>x. Num 0))) None) ''FF8000''))
           \<lparr>col_r := Num 0, col_g := Num 0, col_b := Num 255\<rparr>) (1, 0) (Num (1 / 2))
   \<and> px (pxfi (getImageData (col (new_Canvas (Grid (line_grid 2 (\<lambda>x. Num 0))) None) ''FF8000'')) (1, 0) (Num (1 / 2))) ! 4 = 255
   \<and> px (pxfi (getImageData (col (new_Canvas (Grid (line_grid 2 (\<lambda>x. Num 0))) None) ''FF8000'')) (1, 0) (Num (1 / 2))) ! 5 = 128
   \<and> px (pxfi (getImageData (col (new_Canvas (Grid (line_grid 2 (\<lambda>x. Num 0))) None) ''FF8000'')) (1, 0) (Num (1 / 2))) ! 6 = 0
   \<and> px (pxfi (getImageData (col (new_Canvas (Grid (line_grid 2 (\<lambda>x. Num 0))) None) ''FF8000'')) (1, 0) (Num (1 / 2))) ! 7 = 128"
  using pxfi_overwrites [where cv = "getImageData (col (new_Canvas (Grid (line_grid 2 (\<lambda>x. Num 0))) None) ''FF8000'')"
      and p = "(1, 0)" and ?a1.0 = "Num (1 / 4)" and r = "Num 0" and g = "Num 0" and b = "Num 255"
      and ?a2.0 = "Num (1 / 2)" and k = 4]
  by (simp add: getImageData_def col_def new_Canvas_def line_grid_def option_zoom_def option_wrap_def
     substr_def parseInt16_def hex_digit_def js_space_def pxfi_offsets_def for_range_step for_range_stop
     round_half_even_def)

subsection \<open>clear and the colour state\<close>

text \<open>
  Claim C10. \<open>clear(color)\<close> fills the canvas through the drawing context and leaves
  the channel fields \<open>col_r\<close>, \<open>col_g\<close>, \<open>col_b\<close> as they were: after
  \<open>col(hex)\<close> and a \<open>clear\<close> with any colour, they are still the channels parsed
  from \<open>hex\<close>, and a raw pixel write into the image fetched after the \<open>clear\<close> stores
  these channels, not the clear colour.
\<close>

theorem clear_keeps_channels:
  "col_r (clear fillRect cv c) = col_r cv \<and> col_g (clear fillRect cv c) = col_g cv
   \<and> col_b (clear fillRect cv c) = col_b cv
   \<and> col_r (clear fillRect (col cv hex) c) = parseInt16 (substr hex 0 2)
   \<and> col_g (clear fillRect (col cv hex) c) = parseInt16 (substr hex 2 2)
   \<and> col_b (clear fillRect (col cv hex) c) = parseInt16 (substr hex 4 2)
   \<and> (k \<in> set (pxfi_offsets (zoom cv) (width cv) p) \<and> 0 \<le> k
        \<and> k + 3 < int (length (fillRect (''#'' @ col_or_black c)
                                  (0, 0, width cv * zoom cv, height cv * zoom cv) (img cv)))
      \<longrightarrow> px (pxfi (getImageData (clear fillRect (col cv hex) c)) p alpha) ! nat k
            = to_uint8c (parseInt16 (substr hex 0 2))
        \<and> px (pxfi (getImageData (clear fillRect (col cv hex) c)) p alpha) ! nat (k + 1)
            = to_uint8c (parseInt16 (substr hex 2 2))
        \<and> px (pxfi (getImageData (clear fillRect (col cv hex) c)) p alpha) ! nat (k + 2)
            = to_uint8c (parseInt16 (substr hex 4 2)))"
proof -
  let ?cv = "getImageData (clear fillRect (col cv hex) c)"
  have f: "zoom ?cv = zoom cv" "width ?cv = width cv"
    "px ?cv = fillRect (''#'' @ col_or_black c) (0, 0, width cv * zoom cv, height cv * zoom cv) (img cv)"
    "col_r ?cv = parseInt16 (substr hex 0 2)" "col_g ?cv = parseInt16 (substr hex 2 2)"
    "col_b ?cv = parseInt16 (substr hex 4 2)"
    by (simp_all add: clear_def col_def getImageData_def Let_def)
  have ch: "col_r (clear fillRect cv' c) = col_r cv' \<and> col_g (clear fillRect cv' c) = col_g cv'
      \<and> col_b (clear fillRect cv' c) = col_b cv'" for cv'
    by (simp add: clear_def Let_def)
  have cs: "col_r (col cv hex) = parseInt16 (substr hex 0 2)"
    "col_g (col cv hex) = parseInt16 (substr hex 2 2)"
    "col_b (col cv hex) = parseInt16 (substr hex 4 2)"
    by (simp_all add: col_def)
  show ?thesis
    using pxfi_writes [of k ?cv p alpha] ch [of cv] ch [of "col cv hex"]
    unfolding f cs by blast
qed

text \<open>
  After \<open>col("FF8000")\<close> and a \<open>clear("FFFFFF")\<close> that fills the bitmap with white, a
  raw write to pixel \<open>(1, 0)\<close> stores the bytes 255, 128, 0.
\<close>

theorem clear_keeps_channels_witness:
  "px (pxfi (getImageData (clear (\<lambda>style rect buf. replicate (length buf) 255)
                 (col (new_Canvas (Grid (line_grid 2 (\<lambda>x. Num 0))) None) ''FF8000'') (Some ''FFFFFF'')))
            (1, 0) (Num 1)) ! 4 = 255
   \<and> px (pxfi (getImageData (clear (\<lambda>style rect buf. replicate (length buf) 255)
                 (col (new_Canvas (Grid (line_grid 2 (\<lambda>x. Num 0))) None) ''FF8000'') (Some ''FFFFFF'')))
            (1, 0) (Num 1)) ! 5 = 128
   \<and> px (pxfi (getImageData (clear (\<lambda>style rect buf. replicate (length buf) 255)
                 (col (new_Canvas (Grid (line_grid 2 (\<lambda>x. Num 0))) None) ''FF8000'') (Some ''FFFFFF'')))
            (1, 0) (Num 1)) ! 6 = 0"
  using clear_keeps_channels [where cv = "new_Canvas (Grid (line_grid 2 (\<lambda>x. Num 0))) None"
      and fillRect = "\<lambda>style rect buf. replicate (length buf) 255" and c = "Some ''FFFFFF''"
      and hex = "''FF8000''" and p = "(1, 0)" and alpha = "Num 1" and k = 4]
  by (simp add: new_Canvas_def line_grid_def option_zoom_def option_wrap_def
     substr_def parseInt16_def hex_digit_def js_space_def pxfi_offsets_def for_range_step for_range_stop
     round_half_even_def)

subsection \<open>writePNG\<close>

text \<open>
  Claim C7. \<open>writePNG\<close> to a path whose directory does not exist throws a message that
  names the path. The claim says that every other failure of the write propagates to the
  caller. The handler of \<open>writePNG\<close> rethrows nothing: an error whose code is not
  \<open>ENOENT\<close> (here \<open>EACCES\<close>, or an error without a code) is dropped and the call
  returns normally.
\<close>

theorem writePNG_drops_other_errors:
  "writePNG (\<lambda>fname. Raised (Some ''EACCES'')) ''output/img/frame.png'' = Inr ()
   \<and> writePNG (\<lambda>fname. Raised None) ''output/img/frame.png'' = Inr ()
   \<and> writePNG (\<lambda>fname. Raised (Some ''ENOENT'')) ''nodir/frame.png'' =
       Inl (Thrown ''Canvas.writePNG: cannot write to file nodir/frame.png, are you sure the directory exists?'')"
  by (simp add: writePNG_def)

subsection \<open>The activity constraint of drawActivityValues\<close>





subsection \<open>The lines of drawCellBorders\<close>





















subsection \<open>Coordinate wrapping\<close>

lemma col_red: "col cv ''FF0000'' = cv\<lparr>fillStyle := ''#FF0000'', col_r := Num 255, col_g := Num 0, col_b := Num 0\<rparr>"
  by (simp add: col_def substr_def parseInt16_def hex_digit_def js_space_def)

lemma ex_wrap:
  "new_Canvas (Grid ((line_grid 400 (\<lambda>x. Num 0))\<lparr>extents := (400, 10)\<rparr>))
              (Some \<lparr>opt_zoom = None, opt_wrap = Some (200, 0)\<rparr>) =
   \<lparr> C = None, grid = (line_grid 400 (\<lambda>x. Num 0))\<lparr>extents := (400, 10)\<rparr>,
     cv_extents = (400, 10), zoom = 1, wrap = (200, 0), width = 200, height = 10,
     img = replicate 8000 0, px = [], col_r = NaN, col_g = NaN, col_b = NaN,
     fillStyle = ''#000000'', globalAlpha = 1 \<rparr>"
  by (simp add: new_Canvas_def Let_def option_zoom_def option_wrap_def line_grid_def)

lemma ex_wrap_model:
  "new_Canvas (Model (two_cells\<lparr>cpm_extents := (400, 10), PixelsByCell := [(1, [(201, 5)])]\<rparr>))
              (Some \<lparr>opt_zoom = None, opt_wrap = Some (200, 0)\<rparr>) =
   \<lparr> C = Some (two_cells\<lparr>cpm_extents := (400, 10), PixelsByCell := [(1, [(201, 5)])]\<rparr>),
     grid = cpm_grid two_cells,
     cv_extents = (400, 10), zoom = 1, wrap = (200, 0), width = 200, height = 10,
     img = replicate 8000 0, px = [], col_r = NaN, col_g = NaN, col_b = NaN,
     fillStyle = ''#000000'', globalAlpha = 1 \<rparr>"
  by (simp add: new_Canvas_def Let_def option_zoom_def option_wrap_def)

text \<open>
  Claim C5. The constructor documents that with \<open>wrap[0] = 200\<close> a pixel with x
  coordinate 201 is displayed at \<open>x = 1\<close>, and \<open>p2pdraw\<close> reduces \<open>(201, 5)\<close> to
  \<open>(1, 5)\<close>. Only \<open>drawCellBorders\<close> calls \<open>p2pdraw\<close>. On a canvas over a grid of
  400 by 10 pixels with \<open>wrap = [200, 0]\<close> (so of width 200), \<open>drawPixelSet\<close> and
  \<open>drawCells\<close> pass \<open>(201, 5)\<close> to \<open>pxfi\<close> as it is: buffer pixel \<open>(1, 5)\<close>
  keeps its four zero bytes, and the red pixel lands at \<open>(1, 6)\<close>, one row further down.
\<close>

theorem drawPixelSet_ignores_wrap:
  "p2pdraw (new_Canvas (Grid ((line_grid 400 (\<lambda>x. Num 0))\<lparr>extents := (400, 10)\<rparr>))
              (Some \<lparr>opt_zoom = None, opt_wrap = Some (200, 0)\<rparr>)) (201, 5) = (1, 5)
   \<and> map (\<lambda>k. px (drawPixelSet
               (new_Canvas (Grid ((line_grid 400 (\<lambda>x. Num 0))\<lparr>extents := (400, 10)\<rparr>))
                  (Some \<lparr>opt_zoom = None, opt_wrap = Some (200, 0)\<rparr>))
               [(201, 5)] (Some (ColString ''FF0000''))) ! (4 * (5 * 200 + 1) + k)) [0, 1, 2, 3]
     = [0, 0, 0, 0]
   \<and> map (\<lambda>k. px (drawPixelSet
               (new_Canvas (Grid ((line_grid 400 (\<lambda>x. Num 0))\<lparr>extents := (400, 10)\<rparr>))
                  (Some \<lparr>opt_zoom = None, opt_wrap = Some (200, 0)\<rparr>))
               [(201, 5)] (Some (ColString ''FF0000''))) ! (4 * (6 * 200 + 1) + k)) [0, 1, 2, 3]
     = [255, 0, 0, 255]
   \<and> map_sum id (\<lambda>cv'. map (\<lambda>k. px cv' ! (4 * (5 * 200 + 1) + k)) [0, 1, 2, 3])
       (drawCells
          (new_Canvas (Model (two_cells\<lparr>cpm_extents := (400, 10), PixelsByCell := [(1, [(201, 5)])]\<rparr>))
             (Some \<lparr>opt_zoom = None, opt_wrap = Some (200, 0)\<rparr>))
          1 (Some (ColString ''FF0000'')))
     = Inr [0, 0, 0, 0]
   \<and> map_sum id (\<lambda>cv'. map (\<lambda>k. px cv' ! (4 * (6 * 200 + 1) + k)) [0, 1, 2, 3])
       (drawCells
          (new_Canvas (Model (two_cells\<lparr>cpm_extents := (400, 10), PixelsByCell := [(1, [(201, 5)])]\<rparr>))
             (Some \<lparr>opt_zoom = None, opt_wrap = Some (200, 0)\<rparr>))
          1 (Some (ColString ''FF0000'')))
     = Inr [255, 0, 0, 255]"
  unfolding ex_wrap ex_wrap_model
  by (simp add: p2pdraw_def js_rem_def drawPixelSet_def drawCells_def cell_fill_def
      colour_or_black_def col_if_string_def two_cells_def
      col_red getImageData_def putImageData_def pxfi_px pxfi_offsets_def
      for_range_step for_range_stop nth_store_rgba)

subsection \<open>The alpha values of drawField\<close>















lemma field_cells_line_grid_2: "field_cells (line_grid 2 f) = [(0, 0), (1, 0)]"
  by (simp add: field_cells_def line_grid_def for_range_step for_range_stop)

lemma pixt_line_grid: "pixt (line_grid w f) p = f (fst p)"
  by (simp add: line_grid_def)




text \<open>
  Claim C3. On a grid of exactly two cells with the values 0 and 10, \<open>maxval\<close> is
  \<open>log(10.1)\<close>; \<open>drawField\<close> writes the cell of value 10 with alpha 1 and the
  cell of value 0 with alpha \<open>log(0.1) / log(10.1)\<close>.
\<close>

theorem drawField_two_cells:
  assumes "field_cells cc = [p, q] \<or> field_cells cc = [q, p]"
    and "pixt cc p = Num 0" and "pixt cc q = Num 10"
  shows "field_maxval cc = Num (ln (101 / 10))
       \<and> field_alpha cc (field_maxval cc) q = Num 1
       \<and> field_alpha cc (field_maxval cc) p = Num (ln (1 / 10) / ln (101 / 10))
       \<and> drawField cv (Some cc) c =
           (putImageData
              (fold (\<lambda>x s. pxfi s x (if x = q then Num 1 else Num (ln (1 / 10) / ln (101 / 10))))
                    (field_cells cc)
                    (getImageData (col cv (case c of None \<Rightarrow> ''0000FF'' | Some h \<Rightarrow> h)))))
           \<lparr>globalAlpha := 1\<rparr>"
proof -
  have lp: "log_pixt cc p = Num (ln (1 / 10))" and lq: "log_pixt cc q = Num (ln (101 / 10))"
    using assms(2,3) by (simp_all add: log_pixt_def)
  have ne: "p \<noteq> q" using assms(2,3) by auto
  have pos: "0 < ln (101 / 10 :: real)" and neg: "ln (1 / 10 :: real) < 0" by simp_all
  have m: "field_maxval cc = Num (ln (101 / 10))"
    using assms(1) pos neg by (auto simp: field_maxval_def lp lq)
  have aq: "field_alpha cc (field_maxval cc) q = Num 1"
    using pos by (simp add: m lq field_alpha_def)
  have ap: "field_alpha cc (field_maxval cc) p = Num (ln (1 / 10) / ln (101 / 10))"
    using pos by (simp add: m lp field_alpha_def)
  have f: "fold (\<lambda>x s. pxfi s x (field_alpha cc (field_maxval cc) x)) (field_cells cc) =
           fold (\<lambda>x s. pxfi s x (if x = q then Num 1 else Num (ln (1 / 10) / ln (101 / 10))))
                (field_cells cc)"
    using assms(1) ne aq ap by (intro fold_cong [OF refl refl, THEN ext]) auto
  have d: "drawField cv (Some cc) c =
           (putImageData
              (fold (\<lambda>x s. pxfi s x (if x = q then Num 1 else Num (ln (1 / 10) / ln (101 / 10))))
                    (field_cells cc)
                    (getImageData (col cv (case c of None \<Rightarrow> ''0000FF'' | Some h \<Rightarrow> h)))))
           \<lparr>globalAlpha := 1\<rparr>"
    by (simp add: drawField_def Let_def f)
  show ?thesis
    using m aq ap d by (simp only: simp_thms)
qed

theorem drawField_two_cells_witness:
  "field_alpha (line_grid 2 (\<lambda>x. if x = 0 then Num 0 else Num 10))
     (field_maxval (line_grid 2 (\<lambda>x. if x = 0 then Num 0 else Num 10))) (1, 0) = Num 1
   \<and> field_alpha (line_grid 2 (\<lambda>x. if x = 0 then Num 0 else Num 10))
     (field_maxval (line_grid 2 (\<lambda>x. if x = 0 then Num 0 else Num 10))) (0, 0) =
       Num (ln (1 / 10) / ln (101 / 10))"
proof -
  let ?cc = "line_grid 2 (\<lambda>x. if x = 0 then Num 0 else Num 10)"
  have h1: "field_cells ?cc = [(0, 0), (1, 0)] \<or> field_cells ?cc = [(1, 0), (0, 0)]"
    by (simp add: field_cells_line_grid_2)
  have h2: "pixt ?cc (0, 0) = Num 0" and h3: "pixt ?cc (1, 0) = Num 10"
    by (simp_all add: pixt_line_grid)
  show ?thesis
    using drawField_two_cells [OF h1 h2 h3, of "new_Canvas (Grid ?cc) None" None] by blast
qed

subsection \<open>The single contour level of the step field\<close>

lemma maxmin_fold_floor:
  assumes "\<forall>x\<in>set xs. \<exists>l. log_pixt cc x = Num l \<and> ln (1 / 10) \<le> l" and "0 \<le> a"
  shows "\<exists>b. fold (\<lambda>p (maxval, minval).
             (if js_lt maxval (log_pixt cc p) then log_pixt cc p else maxval,
              if js_gt minval (log_pixt cc p) then log_pixt cc p else minval))
          xs (Num a, Num (ln (1 / 10))) = (Num b, Num (ln (1 / 10))) \<and> 0 \<le> b"
  using assms
proof (induction xs arbitrary: a)
  case Nil
  then show ?case by simp
next
  case (Cons x xs)
  let ?F = "\<lambda>p (maxval, minval).
             (if js_lt maxval (log_pixt cc p) then log_pixt cc p else maxval,
              if js_gt minval (log_pixt cc p) then log_pixt cc p else minval)"
  from Cons.prems(1) obtain l where l: "log_pixt cc x = Num l" "ln (1 / 10) \<le> l" by auto
  define a' where "a' = (if a < l then l else a)"
  have a': "0 \<le> a'" using Cons.prems(2) by (simp add: a'_def)
  have step: "?F x (Num a, Num (ln (1 / 10))) = (Num a', Num (ln (1 / 10)))"
    using l by (simp add: a'_def js_gt_def)
  have rest: "\<forall>x\<in>set xs. \<exists>l. log_pixt cc x = Num l \<and> ln (1 / 10) \<le> l"
    using Cons.prems(1) by simp
  have "fold ?F (x # xs) (Num a, Num (ln (1 / 10))) = fold ?F xs (?F x (Num a, Num (ln (1 / 10))))"
    by simp
  also have "\<dots> = fold ?F xs (Num a', Num (ln (1 / 10)))"
    by (simp only: step)
  finally show ?case
    using Cons.IH [OF rest a'] by (simp only:)
qed

lemma neigh_loop_never_below:
  assumes "\<forall>n. \<not> js_lt (js_log (js_add (Num (1 / 10)) (pixt cc (i2p (grid cv) n)))) v"
  shows "neigh_loop cv cc v ns False a = False"
  using assms by (induction ns arbitrary: a) (simp_all add: Let_def)

lemma level_loop_once:
  assumes "js_lt v maxval" and "\<not> js_lt (js_add v step) maxval"
  shows "level_loop body v maxval step cv = Some (body v cv)"
  using assms by (subst level_loop.simps, subst level_loop.simps) simp

lemma contour_one_level:
  assumes "\<forall>p. pixt (case cc of None \<Rightarrow> grid cv | Some g \<Rightarrow> g) p =
                (if fst p < 5 then Num 0 else Num 100)"
  shows "drawFieldContour cv cc (Some (Num 1)) c =
           Some (putImageData (getImageData (col cv (case c of None \<Rightarrow> ''FFFF00'' | Some h \<Rightarrow> h))))"
proof -
  define cc' where "cc' = (case cc of None \<Rightarrow> grid cv | Some g \<Rightarrow> g)"
  define m :: real where "m = ln (1 / 10)"
  have pv: "pixt cc' p = (if fst p < 5 then Num 0 else Num 100)" for p
    using assms unfolding cc'_def by blast
  have lg: "log_pixt cc' p = Num (if fst p < 5 then ln (1 / 10) else ln (1001 / 10))" for p
    by (simp add: log_pixt_def pv)
  have ge: "\<exists>l. log_pixt cc' p = Num l \<and> ln (1 / 10) \<le> l" for p
    by (simp add: lg)
  from maxmin_fold_floor [of "field_cells cc'" cc' 0] ge
  obtain b where b: "field_maxmin cc' = (Num b, Num m)" "0 \<le> b"
    unfolding field_maxmin_def m_def by auto
  have mneg: "m < 0" by (simp add: m_def)
  have nb: "\<not> js_lt (js_log (js_add (Num (1 / 10)) (pixt cc' (i2p (grid s) n)))) (Num m)" for s n
    using ge [of "i2p (grid s) n"] by (auto simp: log_pixt_def m_def)
  have nl: "neigh_loop s cc' (Num m) ns False False = False" for s ns
    using nb [of s] by (intro neigh_loop_never_below) blast
  have cell: "contour_cell cc' (Num b) (Num m) (Num m) p s = s" for p s
    by (simp add: contour_cell_def Let_def nl)
  have body: "fold (contour_cell cc' (Num b) (Num m) (Num m)) xs s = s" for xs s
    by (induction xs) (simp_all add: cell)
  have loop: "level_loop (\<lambda>v s. fold (contour_cell cc' (Num b) (Num m) v) (field_cells cc') s)
                (Num m) (Num b) (js_div (js_sub (Num b) (Num m)) (Num 1)) s = Some s" for s
    using mneg b(2) by (subst level_loop_once) (simp_all add: js_sub_def body)
  show ?thesis
    unfolding drawFieldContour_def Let_def cc'_def [symmetric]
    by (simp add: b loop)
qed

text \<open>
  Claim C2, as amended. On the step field (value 0 where \<open>x < 5\<close>, value 100 elsewhere)
  \<open>drawFieldContour\<close> with \<open>nsteps = 1\<close> returns and marks no cell at all. The only
  level visited is \<open>v = minval = log(0.1)\<close>, the next one being \<open>maxval\<close> itself, and
  no value of the field lies strictly below that level, so no pixel has a neighbour
  below it: the bitmap is left as it was. This holds whatever the extents and the
  neighbourhood of the grid are.
\<close>

theorem contour_step_field_unmarked:
  assumes "\<forall>p. pixt cc p = (if fst p < 5 then Num 0 else Num 100)"
  shows "drawFieldContour cv (Some cc) (Some (Num 1)) c =
           Some (putImageData (getImageData (col cv (case c of None \<Rightarrow> ''FFFF00'' | Some h \<Rightarrow> h))))
       \<and> map_option img (drawFieldContour cv (Some cc) (Some (Num 1)) c) = Some (img cv)"
  using contour_one_level [where cc = "Some cc" and cv = cv and c = c] assms
  by (simp add: putImageData_def getImageData_def col_def)

lemma img_new_line_canvas:
  "img (new_Canvas (Grid (line_grid 10 f)) None) = replicate 40 0"
  by (simp add: new_Canvas_def Let_def option_zoom_def option_wrap_def line_grid_def)

theorem contour_step_field_unmarked_witness:
  "map_option img
     (drawFieldContour (new_Canvas (Grid (line_grid 10 (\<lambda>x. Num 0))) None)
        (Some (line_grid 10 (\<lambda>x. if x < 5 then Num 0 else Num 100))) (Some (Num 1)) None)
   = Some (replicate 40 0)"
proof -
  have h: "\<forall>p. pixt (line_grid 10 (\<lambda>x. if x < 5 then Num 0 else Num 100)) p =
             (if fst p < 5 then Num 0 else Num 100)"
    by (simp add: pixt_line_grid)
  show ?thesis
    using contour_step_field_unmarked [OF h, where cv = "new_Canvas (Grid (line_grid 10 (\<lambda>x. Num 0))) None"
        and c = None, THEN conjunct2]
    by (simp only: img_new_line_canvas)
qed

text \<open>
  The claim as stated (the cells with \<open>x = 4\<close> and \<open>x = 5\<close> are marked) fails on the
  step field of ten cells in a row, drawn on its own canvas: after the call the alpha
  bytes of the pixels 4 and 5 are 0 as before, and so is the whole bitmap.
\<close>

theorem contour_step_field_counterexample:
  "map_option (\<lambda>cv'. (img cv' ! (4 * 4 + 3), img cv' ! (4 * 5 + 3), img cv' = replicate 40 0))
     (drawFieldContour
        (new_Canvas (Grid (line_grid 10 (\<lambda>x. if x < 5 then Num 0 else Num 100))) None)
        None (Some (Num 1)) None)
   = Some (0, 0, True)"
proof -
  let ?cv = "new_Canvas (Grid (line_grid 10 (\<lambda>x. if x < 5 then Num 0 else Num 100))) None"
  have g: "grid ?cv = line_grid 10 (\<lambda>x. if x < 5 then Num 0 else Num 100)"
    by (simp add: new_Canvas_def Let_def)
  have h: "\<forall>p. pixt (case None of None \<Rightarrow> grid ?cv | Some g \<Rightarrow> g) p =
             (if fst p < 5 then Num 0 else Num 100)"
    by (simp add: g pixt_line_grid)
  show ?thesis
    by (simp add: contour_one_level [OF h] putImageData_def getImageData_def col_def
        img_new_line_canvas)
qed

subsection \<open>The topology used by drawFieldContour\<close>
















end
